theory Spec2Isabelle
  imports Complex_Main "HOL-Library.Sublist"
begin

section \<open>Python strings\<close>

text \<open>
  A Python \<^verbatim>\<open>str\<close> is modelled as a \<^typ>\<open>string\<close>: a list of 8-bit characters, read
  as the code points 0..255 (Latin-1).  On these code points the character classes of
  \<^verbatim>\<open>re\<close> and of the \<^verbatim>\<open>str\<close> methods are the following (\<^verbatim>\<open>\s\<close> and
  \<^verbatim>\<open>str.isspace\<close> agree, \<^verbatim>\<open>\d\<close> is the ASCII digits, and two characters match
  under \<^verbatim>\<open>re.IGNORECASE\<close> exactly when \<^verbatim>\<open>str.lower\<close> maps them to the same
  character).  Python's \<^verbatim>\<open>int\<close> is the unbounded \<^typ>\<open>int\<close>; CPython's optional
  limit on the number of digits \<^verbatim>\<open>int()\<close> converts is not part of the model.
\<close>

definition py_ord :: "char \<Rightarrow> nat" where
  "py_ord c = of_char c"

definition is_digit :: "char \<Rightarrow> bool" where
  "is_digit c = (48 \<le> py_ord c \<and> py_ord c \<le> 57)"

definition is_space :: "char \<Rightarrow> bool" where
  "is_space c = (let n = py_ord c in
     (9 \<le> n \<and> n \<le> 13) \<or> (28 \<le> n \<and> n \<le> 32) \<or> n = 133 \<or> n = 160)"

definition is_printable :: "char \<Rightarrow> bool" where
  "is_printable c = (let n = py_ord c in
     (32 \<le> n \<and> n \<le> 126) \<or> (161 \<le> n \<and> n \<noteq> 173))"

text \<open>
  \<^verbatim>\<open>str.lower\<close> on one character.  The letters it changes are the upper-case ones,
  \<^verbatim>\<open>A\<close> to \<^verbatim>\<open>Z\<close> (65 to 90) and the accented ones of Latin-1 (192 to 222 without the
  multiplication sign 215); the lower-case letter is 32 further on.  The code points of
  these letters have the bit of value 32 clear, so adding 32 is setting that bit.
\<close>

definition is_upper :: "char \<Rightarrow> bool" where
  "is_upper c = (let n = py_ord c in
     (65 \<le> n \<and> n \<le> 90) \<or> (192 \<le> n \<and> n \<le> 222 \<and> n \<noteq> 215))"

definition lower_char :: "char \<Rightarrow> char" where
  "lower_char c =
     (if is_upper c
      then Char (digit0 c) (digit1 c) (digit2 c) (digit3 c) (digit4 c) True (digit6 c) (digit7 c)
      else c)"

text \<open>\<^verbatim>\<open>s.lower()\<close>\<close>

definition lower :: "string \<Rightarrow> string" where
  "lower s = map lower_char s"

text \<open>\<^verbatim>\<open>sub in s\<close> is \<^term>\<open>sublist sub s\<close>; \<^verbatim>\<open>s.startswith(p)\<close> is \<^term>\<open>prefix p s\<close>.\<close>

section \<open>Exceptions\<close>

text \<open>
  An exception is its class and its message (\<^verbatim>\<open>str(error)\<close>).  The classes are the three
  the monitor declares, the built-in ones the modelled code can raise, and one for every
  other class.
\<close>

datatype exc_kind =
  CaptureError | ParseError | ValidationError | ValueError | OverflowError | OtherException

datatype exn = Exn (kind: exc_kind) (message: string)

section \<open>Regular expressions\<close>

text \<open>
  The patterns of the source are written with the combinators below, one combinator per
  construct of the pattern, in the pattern's order.  A pattern is a backtracking matcher
  in continuation-passing style, which is how \<^verbatim>\<open>re\<close> matches: it consumes a prefix of
  the input and hands the rest to its continuation; when the continuation fails it tries
  its next way of matching, in the order of priority of \<^verbatim>\<open>re\<close> (the left alternative
  first, the longest repetition first for a greedy quantifier, the shortest first for a
  lazy one).  The first success is the match.
\<close>

type_synonym 'r cont = "string \<Rightarrow> 'r option"

text \<open>A literal string; with \<^verbatim>\<open>re.IGNORECASE\<close>.\<close>

definition lit :: "string \<Rightarrow> 'r cont \<Rightarrow> string \<Rightarrow> 'r option" where
  "lit p k s = (if prefix p s then k (drop (length p) s) else None)"

definition lit_ci :: "string \<Rightarrow> 'r cont \<Rightarrow> string \<Rightarrow> 'r option" where
  "lit_ci p k s =
     (if length p \<le> length s \<and> lower (take (length p) s) = lower p
      then k (drop (length p) s) else None)"

text \<open>One character of a class.\<close>

definition cls :: "(char \<Rightarrow> bool) \<Rightarrow> 'r cont \<Rightarrow> string \<Rightarrow> 'r option" where
  "cls P k s = (case s of [] \<Rightarrow> None | c # cs \<Rightarrow> if P c then k cs else None)"

text \<open>\<^verbatim>\<open>[class]*\<close>, greedy, and \<^verbatim>\<open>[class]*?\<close>, lazy.\<close>

primrec star :: "(char \<Rightarrow> bool) \<Rightarrow> 'r cont \<Rightarrow> string \<Rightarrow> 'r option" where
  "star P k [] = k []"
| "star P k (c # cs) =
     (if P c then (case star P k cs of Some r \<Rightarrow> Some r | None \<Rightarrow> k (c # cs))
      else k (c # cs))"

primrec star_lazy :: "(char \<Rightarrow> bool) \<Rightarrow> 'r cont \<Rightarrow> string \<Rightarrow> 'r option" where
  "star_lazy P k [] = k []"
| "star_lazy P k (c # cs) =
     (case k (c # cs) of Some r \<Rightarrow> Some r
      | None \<Rightarrow> if P c then star_lazy P k cs else None)"

text \<open>\<^verbatim>\<open>[class]+\<close> and \<^verbatim>\<open>[class]+?\<close>.\<close>

definition rep1 :: "(char \<Rightarrow> bool) \<Rightarrow> 'r cont \<Rightarrow> string \<Rightarrow> 'r option" where
  "rep1 P k = cls P (star P k)"


text \<open>\<^verbatim>\<open>a|b\<close>\<close>

definition alt ::
  "('r cont \<Rightarrow> string \<Rightarrow> 'r option) \<Rightarrow> ('r cont \<Rightarrow> string \<Rightarrow> 'r option)
    \<Rightarrow> 'r cont \<Rightarrow> string \<Rightarrow> 'r option" where
  "alt a b k s = (case a k s of Some r \<Rightarrow> Some r | None \<Rightarrow> b k s)"

text \<open>
  A capturing group \<^verbatim>\<open>(a)\<close>: the continuation also receives the text the group matched,
  which is the part of the input that \<open>a\<close> consumed.
\<close>

definition capture ::
  "('r cont \<Rightarrow> string \<Rightarrow> 'r option) \<Rightarrow> (string \<Rightarrow> 'r cont) \<Rightarrow> string \<Rightarrow> 'r option" where
  "capture a k s = a (\<lambda>rest. k (take (length s - length rest) s) rest) s"

text \<open>
  \<^verbatim>\<open>$\<close> without \<^verbatim>\<open>re.MULTILINE\<close>: the end of the string, or just before a newline that
  ends the string.
\<close>

definition at_end :: "'r cont \<Rightarrow> string \<Rightarrow> 'r option" where
  "at_end k s = (if s = [] \<or> s = [CHR 0x0A] then k s else None)"


definition not_newline :: "char \<Rightarrow> bool" where
  "not_newline c = (c \<noteq> CHR 0x0A)"

definition in_range :: "nat \<Rightarrow> nat \<Rightarrow> char \<Rightarrow> bool" where
  "in_range lo hi c = (lo \<le> py_ord c \<and> py_ord c \<le> hi)"

text \<open>
  \<^verbatim>\<open>re.search(pattern, s)\<close>: the match at the leftmost position that has one.  The
  argument \<open>m\<close> is the pattern with its final continuation, applied to the text from a
  position on.
\<close>

primrec re_search :: "(string \<Rightarrow> 'a option) \<Rightarrow> string \<Rightarrow> 'a option" where
  "re_search m [] = m []"
| "re_search m (c # cs) = (case m (c # cs) of Some r \<Rightarrow> Some r | None \<Rightarrow> re_search m cs)"

text \<open>
  \<^verbatim>\<open>re.sub(pattern, repl, s)\<close> and \<^verbatim>\<open>re.findall(pattern, s)\<close>: the non-overlapping
  matches from left to right.  Here \<open>m\<close> returns what the match captured and the text
  after the match.  Every pattern these two are used with consumes at least one
  character; a match that consumed none is passed over.
\<close>

function re_sub :: "(string \<Rightarrow> ('g \<times> string) option) \<Rightarrow> ('g \<Rightarrow> string) \<Rightarrow> string \<Rightarrow> string" where
  "re_sub m repl [] = []"
| "re_sub m repl (c # cs) =
     (case m (c # cs) of
        None \<Rightarrow> c # re_sub m repl cs
      | Some (g, rest) \<Rightarrow>
          if length rest \<le> length cs then repl g @ re_sub m repl rest
          else c # re_sub m repl cs)"
  by pat_completeness auto
termination
  by (relation "measure (\<lambda>(m, repl, s). length s)") auto


text \<open>
  \<^verbatim>\<open>re.sub\<close> with a replacement function that may raise: the function is called at each
  match in turn, and the first exception ends the substitution.
\<close>

function re_sub_raising ::
  "(string \<Rightarrow> ('g \<times> string) option) \<Rightarrow> ('g \<Rightarrow> exn + string) \<Rightarrow> string \<Rightarrow> exn + string" where
  "re_sub_raising m repl [] = Inr []"
| "re_sub_raising m repl (c # cs) =
     (case m (c # cs) of
        None \<Rightarrow> map_sum id ((#) c) (re_sub_raising m repl cs)
      | Some (g, rest) \<Rightarrow>
          if length rest \<le> length cs then
            (case repl g of
               Inl e \<Rightarrow> Inl e
             | Inr t \<Rightarrow> map_sum id ((@) t) (re_sub_raising m repl rest))
          else map_sum id ((#) c) (re_sub_raising m repl cs))"
  by pat_completeness auto
termination
  by (relation "measure (\<lambda>(m, repl, s). length s)") auto


section \<open>String methods\<close>

text \<open>\<^verbatim>\<open>s.split(sep)\<close> for a separator of one character.\<close>

primrec split_char :: "char \<Rightarrow> string \<Rightarrow> string \<Rightarrow> string list" where
  "split_char sep part [] = [part]"
| "split_char sep part (c # cs) =
     (if c = sep then part # split_char sep [] cs else split_char sep (part @ [c]) cs)"

definition split_lines :: "string \<Rightarrow> string list" where
  "split_lines s = split_char (CHR 0x0A) [] s"


text \<open>\<^verbatim>\<open>s.strip()\<close>\<close>

definition strip :: "string \<Rightarrow> string" where
  "strip s = rev (dropWhile is_space (rev (dropWhile is_space s)))"

text \<open>\<^verbatim>\<open>s.replace(old, new)\<close>\<close>

function py_replace :: "string \<Rightarrow> string \<Rightarrow> string \<Rightarrow> string" where
  "py_replace old new [] = (if old = [] then new else [])"
| "py_replace old new (c # cs) =
     (if old = [] then new @ c # py_replace old new cs
      else if prefix old (c # cs) then new @ py_replace old new (drop (length old) (c # cs))
      else c # py_replace old new cs)"
  by pat_completeness auto
termination
  by (relation "measure (\<lambda>(old, new, s). length s)") auto

text \<open>\<^verbatim>\<open>int(s)\<close> for a string of decimal digits, as the patterns capture them.\<close>

definition digit_value :: "char \<Rightarrow> int" where
  "digit_value c = int (py_ord c) - 48"

definition py_int :: "string \<Rightarrow> int" where
  "py_int s = foldl (\<lambda>a c. 10 * a + digit_value c) 0 s"

section \<open>Dates and times\<close>

text \<open>
  A naive \<^verbatim>\<open>datetime\<close> is the instant it denotes on the proleptic Gregorian calendar:
  the number of microseconds from the midnight that starts the day of ordinal 0.  Its
  \<^verbatim>\<open>date()\<close> is the ordinal of the day (\<^verbatim>\<open>toordinal()\<close>: 1 is 0001-01-01), its
  \<^verbatim>\<open>time()\<close> the microseconds since midnight.  Python compares and subtracts naive
  datetimes as these instants.  A \<^verbatim>\<open>timedelta\<close> is a number of microseconds.  Python
  restricts dates to the years 1 to 9999 and raises \<^verbatim>\<open>OverflowError\<close> beyond them; the
  model computes on all integers, so it is Python's arithmetic wherever every instant
  involved is a date of those years.
\<close>

datatype datetime = Datetime (micros: int)

type_synonym timedelta = int

definition days :: "int \<Rightarrow> timedelta" where
  "days n = n * 86400000000"

definition minutes :: "int \<Rightarrow> timedelta" where
  "minutes n = n * 60000000"

definition toordinal :: "datetime \<Rightarrow> int" where
  "toordinal dt = micros dt div 86400000000"

definition time_of :: "datetime \<Rightarrow> int" where
  "time_of dt = micros dt mod 86400000000"

text \<open>\<^verbatim>\<open>datetime.combine(date, time)\<close>\<close>

definition combine :: "int \<Rightarrow> int \<Rightarrow> datetime" where
  "combine date time = Datetime (days date + time)"

text \<open>\<^verbatim>\<open>dt + td\<close>, \<^verbatim>\<open>dt - td\<close> and \<^verbatim>\<open>a - b\<close>\<close>

definition dt_add :: "datetime \<Rightarrow> timedelta \<Rightarrow> datetime" where
  "dt_add dt td = Datetime (micros dt + td)"

definition dt_sub :: "datetime \<Rightarrow> timedelta \<Rightarrow> datetime" where
  "dt_sub dt td = Datetime (micros dt - td)"

definition dt_diff :: "datetime \<Rightarrow> datetime \<Rightarrow> timedelta" where
  "dt_diff a b = micros a - micros b"

definition dt_less :: "datetime \<Rightarrow> datetime \<Rightarrow> bool" where
  "dt_less a b = (micros a < micros b)"

text \<open>
  \<^verbatim>\<open>td.total_seconds() / 3600\<close>.  Python computes it in floating point; the model keeps
  the exact rational.  The source only compares the quotient with an integer number of
  hours \<open>h\<close>, and both divisions round monotonically and are exact at \<open>h\<close> hours, so the
  comparison has the same outcome as the exact one whenever a microsecond is more than
  the rounding error at \<open>h\<close> hours, which holds for \<open>h\<close> up to a million (the source uses 5,
  6, 24, 25, 168 and 169).
\<close>

definition total_seconds :: "timedelta \<Rightarrow> rat" where
  "total_seconds td = of_int td / 1000000"

definition hours_of :: "timedelta \<Rightarrow> rat" where
  "hours_of td = total_seconds td / 3600"

subsection \<open>The calendar\<close>

definition is_leap :: "int \<Rightarrow> bool" where
  "is_leap y = (y mod 4 = 0 \<and> (y mod 100 \<noteq> 0 \<or> y mod 400 = 0))"

definition days_before_year :: "int \<Rightarrow> int" where
  "days_before_year y = (let y1 = y - 1 in y1 * 365 + y1 div 4 - y1 div 100 + y1 div 400)"

definition days_in_month :: "int \<Rightarrow> int \<Rightarrow> int" where
  "days_in_month y m =
     (if m = 2 \<and> is_leap y then 29
      else [31, 28, 31, 30, 31, 30, 31, 31, 30, 31, 30, 31] ! nat (m - 1))"

definition days_before_month :: "int \<Rightarrow> int \<Rightarrow> int" where
  "days_before_month y m =
     [0, 31, 59, 90, 120, 151, 181, 212, 243, 273, 304, 334] ! nat (m - 1)
     + (if m > 2 \<and> is_leap y then 1 else 0)"

definition ymd2ord :: "int \<Rightarrow> int \<Rightarrow> int \<Rightarrow> int" where
  "ymd2ord y m d = days_before_year y + days_before_month y m + d"

text \<open>The year of the day with a given ordinal, as \<^verbatim>\<open>datetime\<close> computes it.\<close>

definition year_of_ordinal :: "int \<Rightarrow> int" where
  "year_of_ordinal n0 =
     (let n = n0 - 1;
          n400 = n div 146097; n = n mod 146097;
          n100 = n div 36524; n = n mod 36524;
          n4 = n div 1461; n = n mod 1461;
          n1 = n div 365;
          y = n400 * 400 + 1 + n100 * 100 + n4 * 4 + n1
      in if n1 = 4 \<or> n100 = 4 then y - 1 else y)"

definition year :: "datetime \<Rightarrow> int" where
  "year dt = year_of_ordinal (toordinal dt)"

text \<open>\<^verbatim>\<open>datetime(y, m, d, hour, minute)\<close>\<close>

definition mk_datetime :: "int \<Rightarrow> int \<Rightarrow> int \<Rightarrow> int \<Rightarrow> int \<Rightarrow> datetime" where
  "mk_datetime y m d hour minute = combine (ymd2ord y m d) (minutes (hour * 60 + minute))"

text \<open>\<^verbatim>\<open>str(n)\<close> for an integer.\<close>

fun str_nat :: "nat \<Rightarrow> string" where
  "str_nat n =
     (if n < 10 then [''0123456789'' ! n] else str_nat (n div 10) @ [''0123456789'' ! (n mod 10)])"

definition str_int :: "int \<Rightarrow> string" where
  "str_int i = (if i < 0 then CHR ''-'' # str_nat (nat (- i)) else str_nat (nat i))"

section \<open>strptime\<close>

text \<open>
  \<^verbatim>\<open>datetime.strptime(data, format)\<close> of CPython, for the six directives the format lists
  of the monitor use and the C locale.  CPython turns the format into a regular
  expression, compiled with \<^verbatim>\<open>re.IGNORECASE\<close>: a directive becomes a named group, a run
  of whitespace becomes \<^verbatim>\<open>\s+\<close>, every other character stands for itself.  The groups
  found are collected in a record.
\<close>

record found =
  g_Y :: "string option"
  g_b :: "string option"
  g_d :: "string option"
  g_I :: "string option"
  g_M :: "string option"
  g_p :: "string option"

definition no_groups :: found where
  "no_groups = \<lparr>g_Y = None, g_b = None, g_d = None, g_I = None, g_M = None, g_p = None\<rparr>"

text \<open>\<^verbatim>\<open>1[0-2]|0[1-9]|[1-9]\<close>\<close>

definition re_I :: "'r cont \<Rightarrow> string \<Rightarrow> 'r option" where
  "re_I = alt (\<lambda>k. lit ''1'' (cls (in_range 48 50) k))
            (alt (\<lambda>k. lit ''0'' (cls (in_range 49 57) k)) (cls (in_range 49 57)))"

text \<open>\<^verbatim>\<open>[0-5]\d|\d\<close>\<close>

definition re_M :: "'r cont \<Rightarrow> string \<Rightarrow> 'r option" where
  "re_M = alt (\<lambda>k. cls (in_range 48 53) (cls is_digit k)) (cls is_digit)"

text \<open>\<^verbatim>\<open>3[0-1]|[1-2]\d|0[1-9]|[1-9]| [1-9]\<close>\<close>

definition re_d :: "'r cont \<Rightarrow> string \<Rightarrow> 'r option" where
  "re_d = alt (\<lambda>k. lit ''3'' (cls (in_range 48 49) k))
            (alt (\<lambda>k. cls (in_range 49 50) (cls is_digit k))
              (alt (\<lambda>k. lit ''0'' (cls (in_range 49 57) k))
                (alt (cls (in_range 49 57)) (\<lambda>k. lit '' '' (cls (in_range 49 57) k)))))"

text \<open>\<^verbatim>\<open>\d\d\d\d\<close>\<close>

definition re_Y :: "'r cont \<Rightarrow> string \<Rightarrow> 'r option" where
  "re_Y k = cls is_digit (cls is_digit (cls is_digit (cls is_digit k)))"

text \<open>\<^verbatim>\<open>am|pm\<close>\<close>

definition re_p :: "'r cont \<Rightarrow> string \<Rightarrow> 'r option" where
  "re_p = alt (lit_ci ''am'') (lit_ci ''pm'')"

definition a_month :: "string list" where
  "a_month = [''jan'', ''feb'', ''mar'', ''apr'', ''may'', ''jun'',
              ''jul'', ''aug'', ''sep'', ''oct'', ''nov'', ''dec'']"

text \<open>\<^verbatim>\<open>jan|feb|...|dec\<close>\<close>

primrec re_names :: "string list \<Rightarrow> 'r cont \<Rightarrow> string \<Rightarrow> 'r option" where
  "re_names [] k s = None"
| "re_names (n # ns) k s = alt (lit_ci n) (re_names ns) k s"

definition directive :: "char \<Rightarrow> (found \<Rightarrow> 'r cont) \<Rightarrow> found \<Rightarrow> string \<Rightarrow> 'r option" where
  "directive d k f s =
     (if d = CHR ''Y'' then capture re_Y (\<lambda>g. k (f\<lparr>g_Y := Some g\<rparr>)) s
      else if d = CHR ''b'' then capture (re_names a_month) (\<lambda>g. k (f\<lparr>g_b := Some g\<rparr>)) s
      else if d = CHR ''d'' then capture re_d (\<lambda>g. k (f\<lparr>g_d := Some g\<rparr>)) s
      else if d = CHR ''I'' then capture re_I (\<lambda>g. k (f\<lparr>g_I := Some g\<rparr>)) s
      else if d = CHR ''M'' then capture re_M (\<lambda>g. k (f\<lparr>g_M := Some g\<rparr>)) s
      else if d = CHR ''p'' then capture re_p (\<lambda>g. k (f\<lparr>g_p := Some g\<rparr>)) s
      else None)"

fun format_re :: "string \<Rightarrow> (found \<Rightarrow> 'r cont) \<Rightarrow> found \<Rightarrow> string \<Rightarrow> 'r option" where
  "format_re [] k f s = k f s"
| "format_re (c # fmt) k f s =
     (if c = CHR ''%'' then
        (case fmt of [] \<Rightarrow> None | d # fmt' \<Rightarrow> directive d (format_re fmt' k) f s)
      else if is_space c then
        (if fmt \<noteq> [] \<and> is_space (hd fmt) then format_re fmt k f s
         else rep1 is_space (format_re fmt k f) s)
      else lit_ci [c] (format_re fmt k f) s)"

text \<open>The index of a month name in the locale's list.\<close>

primrec index_of :: "string \<Rightarrow> string list \<Rightarrow> int" where
  "index_of x [] = 0"
| "index_of x (n # ns) = (if x = n then 0 else 1 + index_of x ns)"

text \<open>
  The fields of the result, from the groups found: a missing year is 1900, a missing
  month or day is 1; the hour is the 12-hour one, corrected by the AM/PM mark.
\<close>

definition found_year :: "found \<Rightarrow> int" where
  "found_year f = (case g_Y f of None \<Rightarrow> 1900 | Some g \<Rightarrow> py_int g)"

definition found_month :: "found \<Rightarrow> int" where
  "found_month f = (case g_b f of None \<Rightarrow> 1 | Some g \<Rightarrow> index_of (lower g) a_month + 1)"

definition found_day :: "found \<Rightarrow> int" where
  "found_day f = (case g_d f of None \<Rightarrow> 1 | Some g \<Rightarrow> py_int (strip g))"

definition found_hour :: "found \<Rightarrow> int" where
  "found_hour f =
     (case g_I f of None \<Rightarrow> 0
      | Some g \<Rightarrow>
          (let hour = py_int g; ampm = (case g_p f of None \<Rightarrow> [] | Some p \<Rightarrow> lower p)
           in if ampm = [] \<or> ampm = ''am'' then (if hour = 12 then 0 else hour)
              else if ampm = ''pm'' then (if hour \<noteq> 12 then hour + 12 else hour)
              else hour))"

definition found_minute :: "found \<Rightarrow> int" where
  "found_minute f = (case g_M f of None \<Rightarrow> 0 | Some g \<Rightarrow> py_int g)"

text \<open>
  The three ways \<^verbatim>\<open>strptime\<close> raises \<^verbatim>\<open>ValueError\<close>: the data does not match, text is
  left over after the match, or the date found does not exist.  (The messages leave out
  the quoted data and format that CPython adds.)
\<close>

definition strptime :: "string \<Rightarrow> string \<Rightarrow> exn + datetime" where
  "strptime data fmt =
     (case format_re fmt (\<lambda>f rest. Some (f, rest)) no_groups data of
        None \<Rightarrow> Inl (Exn ValueError ''time data does not match format'')
      | Some (f, rest) \<Rightarrow>
          if rest \<noteq> [] then Inl (Exn ValueError ''unconverted data remains'')
          else if found_year f < 1 then Inl (Exn ValueError ''year is out of range'')
          else if found_day f > days_in_month (found_year f) (found_month f) then
            Inl (Exn ValueError ''day is out of range for month'')
          else Inr (mk_datetime (found_year f) (found_month f) (found_day f)
                      (found_hour f) (found_minute f)))"

section \<open>The parse layer (monitor.py)\<close>

subsection \<open>strip\_ansi\<close>

definition ESC :: char where
  "ESC = CHR 0x1B"

definition BEL :: char where
  "BEL = CHR 0x07"

text \<open>\<^verbatim>\<open>\x1B\[(\d+)C\<close>\<close>

definition cursor_forward :: "string \<Rightarrow> (string \<times> string) option" where
  "cursor_forward =
     lit [ESC, CHR ''[''] (capture (rep1 is_digit) (\<lambda>g. lit ''C'' (\<lambda>rest. Some (g, rest))))"

text \<open>\<^verbatim>\<open>\x1B(?:[@-Z\\-_]|\[[0-?]*[ -/]*[@-~])\<close>\<close>

definition ansi_escape :: "string \<Rightarrow> (unit \<times> string) option" where
  "ansi_escape =
     lit [ESC]
       (alt (cls (\<lambda>c. in_range 64 90 c \<or> in_range 92 95 c))
            (\<lambda>k. lit ''['' (star (in_range 48 63) (star (in_range 32 47) (cls (in_range 64 126) k))))
          (\<lambda>rest. Some ((), rest)))"

text \<open>\<^verbatim>\<open>\x1B\][^\x07]*(?:\x07|\x1B\\)\<close>\<close>

definition osc_sequence :: "string \<Rightarrow> (unit \<times> string) option" where
  "osc_sequence =
     lit [ESC, CHR '']'']
       (star (\<lambda>c. c \<noteq> BEL)
          (alt (lit [BEL]) (lit [ESC, CHR 0x5C]) (\<lambda>rest. Some ((), rest))))"

text \<open>\<^verbatim>\<open>\][\d;]*[^\n]*\<close>\<close>

definition osc_remainder :: "string \<Rightarrow> (unit \<times> string) option" where
  "osc_remainder =
     lit '']''
       (star (\<lambda>c. is_digit c \<or> c = CHR '';'') (star not_newline (\<lambda>rest. Some ((), rest))))"

text \<open>
  \<^verbatim>\<open>" " * n\<close>: CPython refuses a repetition count that does not fit the index type
  (\<^verbatim>\<open>sys.maxsize\<close>, on a 64-bit build) with \<^verbatim>\<open>OverflowError\<close>.  Running out of memory
  below that count is not part of the model.
\<close>

definition maxsize :: int where
  "maxsize = 2 ^ 63 - 1"

definition repeat_space :: "int \<Rightarrow> exn + string" where
  "repeat_space n =
     (if n > maxsize then Inl (Exn OverflowError ''cannot fit int into an index-sized integer'')
      else Inr (replicate (nat n) (CHR '' '')))"

definition strip_ansi :: "string \<Rightarrow> exn + string" where
  "strip_ansi text =
     (case re_sub_raising cursor_forward (\<lambda>g. repeat_space (py_int g)) text of
        Inl e \<Rightarrow> Inl e
      | Inr text \<Rightarrow>
          (let text = re_sub ansi_escape (\<lambda>_. []) text;
               text = re_sub osc_sequence (\<lambda>_. []) text;
               text = re_sub osc_remainder (\<lambda>_. []) text
           in Inr text))"

subsection \<open>clean\_time\_string\<close>

text \<open>\<^verbatim>\<open>\s*\(.*?\)\<close>\<close>

definition parenthesised :: "string \<Rightarrow> (unit \<times> string) option" where
  "parenthesised =
     star is_space (lit ''('' (star_lazy not_newline (lit '')'' (\<lambda>rest. Some ((), rest)))))"

text \<open>\<^verbatim>\<open>\s+\<close>\<close>

definition whitespace_run :: "string \<Rightarrow> (unit \<times> string) option" where
  "whitespace_run = rep1 is_space (\<lambda>rest. Some ((), rest))"

text \<open>\<^verbatim>\<open>(?i)(am|pm)$\<close>\<close>

definition am_pm_at_end :: "string \<Rightarrow> (string \<times> string) option" where
  "am_pm_at_end =
     capture (alt (lit_ci ''am'') (lit_ci ''pm'')) (\<lambda>g. at_end (\<lambda>rest. Some (g, rest)))"

text \<open>
  \<^verbatim>\<open>str.upper\<close>, on the letters \<^verbatim>\<open>am\<close> and \<^verbatim>\<open>pm\<close> it is applied to: a lower-case
  ASCII letter becomes the letter 32 before it, which is clearing the bit of value 32.
\<close>

definition upper_char :: "char \<Rightarrow> char" where
  "upper_char c =
     (if 97 \<le> py_ord c \<and> py_ord c \<le> 122
      then Char (digit0 c) (digit1 c) (digit2 c) (digit3 c) (digit4 c) False (digit6 c) (digit7 c)
      else c)"

definition clean_time_string :: "string \<Rightarrow> string" where
  "clean_time_string text =
     (let text = re_sub parenthesised (\<lambda>_. []) text;
          text = py_replace '','' [] text;
          text = re_sub whitespace_run (\<lambda>_. '' '') text;
          text = filter is_printable text;
          text = re_sub am_pm_at_end (map upper_char) text
      in strip text)"

subsection \<open>The percentage strategies\<close>

definition in_percent_range :: "int \<Rightarrow> bool" where
  "in_percent_range val = (0 \<le> val \<and> val \<le> 100)"



text \<open>\<^verbatim>\<open>(\d+)%\<close>\<close>

definition percent_token :: "string \<Rightarrow> (string \<times> string) option" where
  "percent_token = capture (rep1 is_digit) (\<lambda>g. lit ''%'' (\<lambda>rest. Some (g, rest)))"

text \<open>
  The loop of \<^verbatim>\<open>extract_via_structure\<close> over the lines, with the flag \<^verbatim>\<open>in_section\<close>.
  In the order of the source: a line that contains the section label sets the flag and
  is passed over; on any other line, once the flag is set, the first \<^verbatim>\<open>N%\<close> of the line
  is looked at first and returned when it is in range, and only then the line is tested
  for being another ``current'' header, which ends the loop.
\<close>

fun structure_scan :: "string \<Rightarrow> bool \<Rightarrow> string list \<Rightarrow> int option" where
  "structure_scan section in_section [] = None"
| "structure_scan section in_section (line # lines) =
     (if sublist (lower section) (lower line) then structure_scan section True lines
      else if in_section then
        (case (case re_search percent_token line of
                 Some (g, rest) \<Rightarrow> if in_percent_range (py_int g) then Some (py_int g) else None
               | None \<Rightarrow> None) of
           Some val \<Rightarrow> Some val
         | None \<Rightarrow>
             if sublist ''current'' (lower line) \<and> \<not> sublist (lower section) (lower line)
             then None
             else structure_scan section in_section lines)
      else structure_scan section in_section lines)"

definition extract_via_structure :: "string \<Rightarrow> string \<Rightarrow> int option" where
  "extract_via_structure text section = structure_scan section False (split_lines text)"







subsection \<open>The reset phrase\<close>



subsection \<open>Reset times\<close>

definition TIME_FORMATS :: "string list" where
  "TIME_FORMATS = [''%I:%M%p'', ''%I%p'']"

definition DATE_FORMATS_NO_YEAR :: "string list" where
  "DATE_FORMATS_NO_YEAR = [''%b %d at %I:%M%p'', ''%b %d at %I%p'']"

definition DATE_FORMATS_WITH_YEAR :: "string list" where
  "DATE_FORMATS_WITH_YEAR = [''%b %d %Y at %I:%M%p'', ''%b %d %Y at %I%p'']"

text \<open>\<^verbatim>\<open>(candidate - now).total_seconds() / 3600\<close>\<close>

definition hours_away :: "datetime \<Rightarrow> datetime \<Rightarrow> rat" where
  "hours_away candidate now = hours_of (dt_diff candidate now)"

text \<open>The loop \<^verbatim>\<open>for days in range(1, 8)\<close> of the weekly branch.\<close>

fun next_occurrence :: "datetime \<Rightarrow> datetime \<Rightarrow> int \<Rightarrow> int list \<Rightarrow> datetime option" where
  "next_occurrence dt now window_hours [] = None"
| "next_occurrence dt now window_hours (n # ns) =
     (let candidate = dt_add dt (days n)
      in if dt_less now candidate \<and> hours_away candidate now \<le> of_int window_hours
         then Some candidate
         else next_occurrence dt now window_hours ns)"

definition adjust_to_future :: "datetime \<Rightarrow> datetime \<Rightarrow> int \<Rightarrow> datetime option" where
  "adjust_to_future dt0 now window_hours =
     (let dt = (if year dt0 = 1900 then combine (toordinal now) (time_of dt0) else dt0)
      in if dt_less dt (dt_sub now (minutes 15)) then
           (if window_hours \<le> 24 then
              (let candidate = dt_add dt (days 1)
               in if hours_away candidate now \<le> of_int (window_hours + 1)
                  then Some candidate else None)
            else next_occurrence dt now window_hours [1, 2, 3, 4, 5, 6, 7])
         else Some dt)"

text \<open>
  The \<^verbatim>\<open>dateutil\<close> package is not part of the repository.  The model takes it as a
  parameter: \<^term>\<open>None\<close> when the import failed (\<^verbatim>\<open>DATEUTIL_AVAILABLE = False\<close>),
  otherwise the function \<^verbatim>\<open>parse(clean, fuzzy=True, default=default_date)\<close> of the
  cleaned phrase and the default date, which returns a naive datetime or raises.
  \<^verbatim>\<open>ParserError\<close> is a subclass of \<^verbatim>\<open>ValueError\<close>, so the handler of the source catches
  the exceptions of class \<^const>\<open>ValueError\<close> and lets every other one through.
\<close>

type_synonym dateutil = "(string \<Rightarrow> datetime \<Rightarrow> exn + datetime) option"

text \<open>
  A loop \<^verbatim>\<open>for fmt in FORMATS: try: ... return ... except ValueError: continue\<close>: the
  first format that parses.  (\<^const>\<open>strptime\<close> raises nothing but \<^verbatim>\<open>ValueError\<close>.)
\<close>

fun try_formats :: "(string \<Rightarrow> exn + datetime) \<Rightarrow> string list \<Rightarrow> datetime option" where
  "try_formats parse [] = None"
| "try_formats parse (fmt # fmts) =
     (case parse fmt of Inr dt \<Rightarrow> Some dt | Inl e \<Rightarrow> try_formats parse fmts)"

text \<open>
  Strategy 2 of \<^verbatim>\<open>parse_reset_time\<close>, up to the datetime it hands to
  \<^verbatim>\<open>adjust_to_future\<close>: the formats with a date when the phrase contains ``at'' (those
  with a year first, then those without, with the current year appended), then the
  formats with a time only, combined with today's date.
\<close>

definition parse_with_formats :: "string \<Rightarrow> datetime \<Rightarrow> datetime option" where
  "parse_with_formats clean now =
     (case (if sublist ''at'' (lower clean) then
              (case try_formats (\<lambda>fmt. strptime clean fmt) DATE_FORMATS_WITH_YEAR of
                 Some dt \<Rightarrow> Some dt
               | None \<Rightarrow>
                   try_formats
                     (\<lambda>fmt. strptime (clean @ '' '' @ str_int (year now)) (fmt @ '' %Y''))
                     DATE_FORMATS_NO_YEAR)
            else None) of
        Some dt \<Rightarrow> Some dt
      | None \<Rightarrow>
          try_formats
            (\<lambda>fmt. map_sum id (\<lambda>t. combine (toordinal now) (time_of t)) (strptime clean fmt))
            TIME_FORMATS)"

definition parse_reset_time ::
  "dateutil \<Rightarrow> string option \<Rightarrow> int \<Rightarrow> datetime \<Rightarrow> exn + datetime option" where
  "parse_reset_time dateutil time_str window_hours now =
     (case time_str of
        None \<Rightarrow> Inr None
      | Some time_str \<Rightarrow>
          if time_str = [] then Inr None
          else
            (let clean = clean_time_string time_str;
                 strategy2 =
                   (case parse_with_formats clean now of
                      Some dt \<Rightarrow> Inr (adjust_to_future dt now window_hours)
                    | None \<Rightarrow> Inr None)
             in case dateutil of
                  None \<Rightarrow> strategy2
                | Some parse \<Rightarrow>
                    (case parse clean (combine (toordinal now) 0) of
                       Inr dt \<Rightarrow> Inr (adjust_to_future dt now window_hours)
                     | Inl e \<Rightarrow> if kind e = ValueError then strategy2 else Inl e)))"

subsection \<open>parse\_usage\<close>

record ParseResult =
  session_percent :: "int option"
  session_reset_str :: "string option"
  session_reset_dt :: "datetime option"
  week_percent :: "int option"
  week_reset_str :: "string option"
  week_reset_dt :: "datetime option"
  error :: "string option"
  warnings :: "string list"


definition LF :: char where
  "LF = CHR 0x0A"



section \<open>The validation layer (monitor.py)\<close>

text \<open>
  The reason \<^verbatim>\<open>validate_result\<close> gives is a message; the model keeps which message it is
  and the value the message quotes.
\<close>

datatype reason =
    Pipeline_error string
  | Session_percentage_missing
  | Week_percentage_missing
  | Session_percent_out_of_range int
  | Week_percent_out_of_range int
  | Session_reset_in_past datetime
  | Session_reset_exceeds_window rat
  | Week_reset_in_past datetime
  | Week_reset_exceeds_window rat

text \<open>\<^verbatim>\<open>if result.error:\<close> holds for an error string that is present and not empty.\<close>

definition truthy :: "string option \<Rightarrow> bool" where
  "truthy s = (case s of None \<Rightarrow> False | Some t \<Rightarrow> t \<noteq> [])"

text \<open>The two checks of one reset time; \<open>limit\<close> is 6 or 169.\<close>

definition check_reset ::
  "datetime option \<Rightarrow> datetime \<Rightarrow> rat \<Rightarrow> (datetime \<Rightarrow> reason) \<Rightarrow> (rat \<Rightarrow> reason)
     \<Rightarrow> reason option" where
  "check_reset reset_dt now limit in_past exceeds =
     (case reset_dt of
        None \<Rightarrow> None
      | Some dt \<Rightarrow>
          if dt_less dt (dt_sub now (minutes 5)) then Some (in_past dt)
          else if hours_away dt now > limit then Some (exceeds (hours_away dt now))
          else None)"

definition validate_result :: "ParseResult \<Rightarrow> datetime \<Rightarrow> bool \<times> reason option" where
  "validate_result result now =
     (if truthy (error result) then (False, Some (Pipeline_error (the (error result))))
      else case session_percent result of
        None \<Rightarrow> (False, Some Session_percentage_missing)
      | Some sp \<Rightarrow>
          (case week_percent result of
             None \<Rightarrow> (False, Some Week_percentage_missing)
           | Some wp \<Rightarrow>
               if \<not> (0 \<le> sp \<and> sp \<le> 100) then (False, Some (Session_percent_out_of_range sp))
               else if \<not> (0 \<le> wp \<and> wp \<le> 100) then (False, Some (Week_percent_out_of_range wp))
               else
                 (case check_reset (session_reset_dt result) now 6
                         Session_reset_in_past Session_reset_exceeds_window of
                    Some r \<Rightarrow> (False, Some r)
                  | None \<Rightarrow>
                      (case check_reset (week_reset_dt result) now 169
                              Week_reset_in_past Week_reset_exceeds_window of
                         Some r \<Rightarrow> (False, Some r)
                       | None \<Rightarrow> (True, None)))))"

section \<open>The capture layer (monitor.py)\<close>

definition validate_capture :: "string \<Rightarrow> exn + bool" where
  "validate_capture output =
     (case strip_ansi output of
        Inl e \<Rightarrow> Inl e
      | Inr clean \<Rightarrow>
          Inr (sublist ''Current session'' clean \<and> sublist ''Current week'' clean
               \<and> sublist ''% used'' clean))"

text \<open>
  The CLI is outside the program.  What \<^verbatim>\<open>capture_usage_output\<close> sees of it is the
  outcome of \<^verbatim>\<open>find_claude_command()\<close>, a command or an exception, and the outcome of
  each call of \<^verbatim>\<open>run_expect_capture(cmd)\<close>, the text of the log or an exception; \<open>run i\<close>
  is the outcome of the call in attempt \<open>i\<close>.  The loop catches \<^verbatim>\<open>CaptureError\<close> only.
  The pauses between attempts are not modelled.
\<close>

fun capture_attempts :: "(nat \<Rightarrow> exn + string) \<Rightarrow> nat list \<Rightarrow> int \<Rightarrow> exn + string" where
  "capture_attempts run [] max_retries =
     Inl (Exn CaptureError
            (''Failed to capture output after '' @ str_int max_retries @ '' attempts''))"
| "capture_attempts run (attempt # rest) max_retries =
     (case (case run attempt of
              Inl e \<Rightarrow> Inl e
            | Inr output \<Rightarrow>
                (case validate_capture output of
                   Inl e \<Rightarrow> Inl e
                 | Inr ok \<Rightarrow> Inr (if ok then Some output else None))) of
        Inr (Some output) \<Rightarrow> Inr output
      | Inr None \<Rightarrow> capture_attempts run rest max_retries
      | Inl e \<Rightarrow>
          if kind e = CaptureError then capture_attempts run rest max_retries else Inl e)"

definition capture_usage_output ::
  "int \<Rightarrow> exn + string \<Rightarrow> (string \<Rightarrow> nat \<Rightarrow> exn + string) \<Rightarrow> exn + string" where
  "capture_usage_output max_retries find_claude_command run_expect_capture =
     (case find_claude_command of
        Inl e \<Rightarrow> Inl e
      | Inr cmd \<Rightarrow>
          capture_attempts (run_expect_capture cmd) [0..<nat max_retries] max_retries)"

section \<open>Failure classification (self\_heal.py)\<close>

datatype FailureType =
  CAPTURE_TIMEOUT | CAPTURE_INCOMPLETE | PARSE_SECTION_MISSING | PARSE_PERCENTAGE
  | PARSE_DATE | VALIDATION | UNKNOWN

text \<open>The confidence scores are the decimal literals of the source, as rationals.\<close>

definition classify_failure :: "exn \<Rightarrow> string \<Rightarrow> FailureType \<times> rat" where
  "classify_failure err output =
    (let error_str = lower (message err);
         output_lower = lower output
     in if kind err = CaptureError then
          (if sublist ''timeout'' error_str then (CAPTURE_TIMEOUT, 95 / 100)
           else (CAPTURE_INCOMPLETE, 85 / 100))
        else if \<not> sublist ''current session'' output_lower
                \<or> \<not> sublist ''current week'' output_lower then
          (PARSE_SECTION_MISSING, 90 / 100)
        else if sublist ''time data'' error_str
                \<or> sublist ''does not match format'' error_str then
          (PARSE_DATE, 95 / 100)
        else if sublist ''out of range'' error_str \<or> sublist ''exceeds window'' error_str
                \<or> sublist ''in past'' error_str then
          (VALIDATION, 90 / 100)
        else if \<not> sublist ''% used'' output_lower then (PARSE_PERCENTAGE, 85 / 100)
        else if sublist ''percentage'' error_str then (PARSE_PERCENTAGE, 80 / 100)
        else (UNKNOWN, 50 / 100))"

section \<open>Verification of a fix (self\_heal.py)\<close>

text \<open>
  One verification attempt runs capture, parse and validate against the live CLI.  What
  the loop of \<^verbatim>\<open>verify_fix\<close> sees of it is one of three outcomes: the result validated,
  it did not, or one of the three calls raised (the \<^verbatim>\<open>except Exception: pass\<close>).  The
  live system is the function giving the outcome of the \<open>i\<close>-th attempt.
\<close>

datatype attempt = Validated | Rejected | Raised

definition VERIFY_ATTEMPTS :: int where
  "VERIFY_ATTEMPTS = 3"

definition VERIFY_THRESHOLD :: int where
  "VERIFY_THRESHOLD = 2"

text \<open>The body of the \<^verbatim>\<open>for i in range(attempts)\<close> loop, on the counter \<^verbatim>\<open>successes\<close>.\<close>

definition verify_step :: "(nat \<Rightarrow> attempt) \<Rightarrow> nat \<Rightarrow> int \<Rightarrow> int" where
  "verify_step live i successes = (if live i = Validated then successes + 1 else successes)"

definition verify_fix :: "int \<Rightarrow> int \<Rightarrow> (nat \<Rightarrow> attempt) \<Rightarrow> bool" where
  "verify_fix attempts threshold live =
     (fold (verify_step live) [0..<nat attempts] 0 \<ge> threshold)"

text \<open>The number of attempts among the first \<open>n\<close> that validated.\<close>

definition successes_of :: "(nat \<Rightarrow> attempt) \<Rightarrow> nat \<Rightarrow> nat" where
  "successes_of live n = length (filter (\<lambda>i. live i = Validated) [0..<n])"

section \<open>The fix catalog (self\_heal.py)\<close>











section \<open>The statements of the specification\<close>

text \<open>
  The definitions of this section follow the words of the specification, not the
  source; the theorems compare them with the functions above.

  The validator's rejection conditions, as the specification lists them: a pipeline
  error (an error string that is present and not empty), a required percentage that is
  absent, a percentage outside 0 to 100, a reset instant more than five minutes before
  \<open>now\<close>, and a reset instant further from \<open>now\<close> than its window (5 hours for the
  session, 168 for the week) plus one hour.
\<close>

definition spec_rejects :: "ParseResult \<Rightarrow> datetime \<Rightarrow> bool" where
  "spec_rejects r now =
     (truthy (error r)
      \<or> session_percent r = None
      \<or> week_percent r = None
      \<or> (case session_percent r of None \<Rightarrow> False | Some p \<Rightarrow> p < 0 \<or> 100 < p)
      \<or> (case week_percent r of None \<Rightarrow> False | Some p \<Rightarrow> p < 0 \<or> 100 < p)
      \<or> (case session_reset_dt r of
            None \<Rightarrow> False
          | Some dt \<Rightarrow> micros dt < micros now - minutes 5
                       \<or> hours_of (micros dt - micros now) > of_int (5 + 1))
      \<or> (case week_reset_dt r of
            None \<Rightarrow> False
          | Some dt \<Rightarrow> micros dt < micros now - minutes 5
                       \<or> hours_of (micros dt - micros now) > of_int (168 + 1)))"



section \<open>Theorems\<close>


lemma fold_verify_step:
  "fold (verify_step live) xs acc = acc + int (length (filter (\<lambda>i. live i = Validated) xs))"
  by (induction xs arbitrary: acc) (simp_all add: verify_step_def)

lemma verify_fix_count:
  "verify_fix attempts threshold live
     \<longleftrightarrow> threshold \<le> int (successes_of live (nat attempts))"
  by (simp add: verify_fix_def fold_verify_step successes_of_def)

text \<open>
  Claim C4.  Verification runs a fixed odd number of attempts, three, and accepts the fix
  exactly when a strict majority of them validate: with exactly two successes out of
  three the fix is accepted, with exactly one it is rejected.
\<close>

theorem verify_fix_majority:
  "VERIFY_ATTEMPTS = 3 \<and> odd VERIFY_ATTEMPTS
   \<and> (verify_fix VERIFY_ATTEMPTS VERIFY_THRESHOLD live
        \<longleftrightarrow> 2 * int (successes_of live 3) > VERIFY_ATTEMPTS)
   \<and> (successes_of live 3 = 2 \<longrightarrow> verify_fix VERIFY_ATTEMPTS VERIFY_THRESHOLD live)
   \<and> (successes_of live 3 = 1 \<longrightarrow> \<not> verify_fix VERIFY_ATTEMPTS VERIFY_THRESHOLD live)"
  by (auto simp: verify_fix_count VERIFY_ATTEMPTS_def VERIFY_THRESHOLD_def)

theorem verify_fix_majority_witness:
  "successes_of (\<lambda>i. if i = 1 then Rejected else Validated) 3 = 2
   \<and> verify_fix VERIFY_ATTEMPTS VERIFY_THRESHOLD (\<lambda>i. if i = 1 then Rejected else Validated)
   \<and> successes_of (\<lambda>i. if i = 1 then Validated else Raised) 3 = 1
   \<and> \<not> verify_fix VERIFY_ATTEMPTS VERIFY_THRESHOLD (\<lambda>i. if i = 1 then Validated else Raised)"
proof -
  have a: "successes_of (\<lambda>i. if i = 1 then Rejected else Validated) 3 = 2"
    by (simp add: successes_of_def upt_rec)
  have b: "successes_of (\<lambda>i. if i = 1 then Validated else Raised) 3 = 1"
    by (simp add: successes_of_def upt_rec)
  show ?thesis
    using a b verify_fix_majority [of "\<lambda>i. if i = 1 then Rejected else Validated"]
      verify_fix_majority [of "\<lambda>i. if i = 1 then Validated else Raised"]
    by simp
qed

text \<open>
  Claim C9, as stated: for every exception and every captured text that contains neither
  ``current session'' nor ``current week'' in any letter case, the classifier answers
  section-missing with confidence 0.90.  A \<^verbatim>\<open>CaptureError\<close> is classified before the
  sections are looked at, so the statement fails for it.
\<close>

theorem classify_failure_capture_error_first:
  "\<not> (\<forall>err output.
        \<not> sublist ''current session'' (lower output)
        \<and> \<not> sublist ''current week'' (lower output)
        \<longrightarrow> classify_failure err output = (PARSE_SECTION_MISSING, 90 / 100))"
proof
  assume h: "\<forall>err output.
        \<not> sublist ''current session'' (lower output)
        \<and> \<not> sublist ''current week'' (lower output)
        \<longrightarrow> classify_failure err output = (PARSE_SECTION_MISSING, 90 / 100)"
  have "classify_failure (Exn CaptureError ''Capture timed out after 20s'') ''''
          = (CAPTURE_INCOMPLETE, 85 / 100)"
    by code_simp
  moreover have "classify_failure (Exn CaptureError ''Capture timed out after 20s'') ''''
          = (PARSE_SECTION_MISSING, 90 / 100)"
    using h by (simp add: lower_def)
  ultimately have "(CAPTURE_INCOMPLETE, 85 / 100 :: rat) = (PARSE_SECTION_MISSING, 90 / 100)"
    by (rule trans [OF sym])
  then show False by simp
qed

text \<open>
  Claim C9, amended: for every exception that is not a \<^verbatim>\<open>CaptureError\<close>, whatever its
  message, and every captured text that contains neither ``current session'' nor
  ``current week'' in any letter case, the classifier answers section-missing with
  confidence 0.90.
\<close>

theorem classify_failure_section_missing:
  "kind err \<noteq> CaptureError
   \<Longrightarrow> \<not> sublist ''current session'' (lower output)
   \<Longrightarrow> \<not> sublist ''current week'' (lower output)
   \<Longrightarrow> classify_failure err output = (PARSE_SECTION_MISSING, 90 / 100)"
  by (simp add: classify_failure_def Let_def)

theorem classify_failure_section_missing_witness:
  "kind (Exn ValidationError ''Session percent 150 out of range'') \<noteq> CaptureError
   \<and> \<not> sublist ''current session'' (lower ''Welcome back'')
   \<and> \<not> sublist ''current week'' (lower ''Welcome back'')
   \<and> classify_failure (Exn ValidationError ''Session percent 150 out of range'') ''Welcome back''
       = (PARSE_SECTION_MISSING, 90 / 100)"
proof -
  have a: "kind (Exn ValidationError ''Session percent 150 out of range'') \<noteq> CaptureError"
    by simp
  have b: "\<not> sublist ''current session'' (lower ''Welcome back'')"
    by code_simp
  have c: "\<not> sublist ''current week'' (lower ''Welcome back'')"
    by code_simp
  show ?thesis
    using a b c classify_failure_section_missing [OF a b c] by simp
qed

lemma check_reset_None:
  "check_reset reset_dt now limit in_past exceeds = None
     \<longleftrightarrow> (case reset_dt of
            None \<Rightarrow> True
          | Some dt \<Rightarrow> \<not> micros dt < micros now - minutes 5
                       \<and> \<not> hours_of (micros dt - micros now) > limit)"
  by (simp add: check_reset_def dt_less_def dt_sub_def hours_away_def dt_diff_def
      split: option.splits)

lemma validate_result_ok:
  "fst (validate_result r now) \<longleftrightarrow> \<not> spec_rejects r now"
proof (cases "truthy (error r)")
  case True
  then show ?thesis by (simp add: validate_result_def spec_rejects_def)
next
  case False
  note s = check_reset_None [of "session_reset_dt r" now 6
      Session_reset_in_past Session_reset_exceeds_window]
  note w = check_reset_None [of "week_reset_dt r" now 169
      Week_reset_in_past Week_reset_exceeds_window]
  show ?thesis
  proof (cases "session_percent r")
    case None
    with False show ?thesis by (simp add: validate_result_def spec_rejects_def)
  next
    case sp: (Some sp)
    show ?thesis
    proof (cases "week_percent r")
      case None
      with False sp show ?thesis by (simp add: validate_result_def spec_rejects_def)
    next
      case wp: (Some wp)
      show ?thesis
      proof (cases "check_reset (session_reset_dt r) now 6
                      Session_reset_in_past Session_reset_exceeds_window")
        case (Some a)
        with False sp wp s show ?thesis
          by (auto simp: validate_result_def spec_rejects_def split: option.splits)
      next
        case sn: None
        show ?thesis
        proof (cases "check_reset (week_reset_dt r) now 169
                        Week_reset_in_past Week_reset_exceeds_window")
          case (Some a)
          with False sp wp sn s w show ?thesis
            by (auto simp: validate_result_def spec_rejects_def split: option.splits)
        next
          case None
          with False sp wp sn s w show ?thesis
            by (auto simp: validate_result_def spec_rejects_def split: option.splits)
        qed
      qed
    qed
  qed
qed

lemma validate_result_reason:
  "(snd (validate_result r now) = None) = fst (validate_result r now)"
  by (simp add: validate_result_def split: option.splits)

text \<open>
  Claim C5.  For every \<^verbatim>\<open>ParseResult\<close> and every \<open>now\<close>, the validator rejects exactly when
  one of the listed conditions holds; it gives a reason exactly when it rejects; and a
  result that carries a pipeline error is rejected with that error, whatever its other
  fields are.
\<close>

theorem validate_result_rejects_exactly:
  "fst (validate_result r now) = (\<not> spec_rejects r now)
   \<and> (snd (validate_result r now) = None) = fst (validate_result r now)
   \<and> (truthy (error r)
        \<longrightarrow> validate_result r now = (False, Some (Pipeline_error (the (error r)))))"
  using validate_result_ok [of r now] validate_result_reason [of r now]
  by (simp add: validate_result_def)

theorem validate_result_rejects_exactly_witness:
  "truthy (error \<lparr>session_percent = Some 42, session_reset_str = None,
                   session_reset_dt = None, week_percent = Some 23, week_reset_str = None,
                   week_reset_dt = None, error = Some ''Something went wrong'',
                   warnings = []\<rparr>)
   \<and> validate_result \<lparr>session_percent = Some 42, session_reset_str = None,
                   session_reset_dt = None, week_percent = Some 23, week_reset_str = None,
                   week_reset_dt = None, error = Some ''Something went wrong'',
                   warnings = []\<rparr> (mk_datetime 2026 1 28 14 0)
       = (False, Some (Pipeline_error ''Something went wrong''))
   \<and> \<not> spec_rejects \<lparr>session_percent = Some 42, session_reset_str = Some ''6:59pm'',
                   session_reset_dt = Some (mk_datetime 2026 1 28 18 59),
                   week_percent = Some 23, week_reset_str = Some ''Jan 29 at 6:59pm'',
                   week_reset_dt = Some (mk_datetime 2026 1 29 18 59), error = None,
                   warnings = []\<rparr> (mk_datetime 2026 1 28 14 0)
   \<and> fst (validate_result \<lparr>session_percent = Some 42, session_reset_str = Some ''6:59pm'',
                   session_reset_dt = Some (mk_datetime 2026 1 28 18 59),
                   week_percent = Some 23, week_reset_str = Some ''Jan 29 at 6:59pm'',
                   week_reset_dt = Some (mk_datetime 2026 1 29 18 59), error = None,
                   warnings = []\<rparr> (mk_datetime 2026 1 28 14 0))"
proof -
  let ?bad = "\<lparr>session_percent = Some 42, session_reset_str = None,
                   session_reset_dt = None, week_percent = Some 23, week_reset_str = None,
                   week_reset_dt = None, error = Some ''Something went wrong'',
                   warnings = []\<rparr>"
  let ?good = "\<lparr>session_percent = Some 42, session_reset_str = Some ''6:59pm'',
                   session_reset_dt = Some (mk_datetime 2026 1 28 18 59),
                   week_percent = Some 23, week_reset_str = Some ''Jan 29 at 6:59pm'',
                   week_reset_dt = Some (mk_datetime 2026 1 29 18 59), error = None,
                   warnings = []\<rparr>"
  have a: "truthy (error ?bad)"
    by (simp add: truthy_def)
  have b: "\<not> spec_rejects ?good (mk_datetime 2026 1 28 14 0)"
    by code_simp
  show ?thesis
    using a b validate_result_rejects_exactly [of ?bad "mk_datetime 2026 1 28 14 0"]
      validate_result_rejects_exactly [of ?good "mk_datetime 2026 1 28 14 0"]
    by simp
qed




text \<open>
  Claim C6 says that the structural scan stops without a result when it meets a line
  holding another ``Current ...'' header before any percentage, and never returns a
  percentage from such a header line.  The source tests a line for a percentage before
  it tests it for being a header: when the header line of the next section carries a
  percentage itself, that percentage is returned.  Also, only the first \<^verbatim>\<open>N%\<close> of a
  line is looked at, so an in-range token behind an out-of-range one on the same line is
  passed over.
\<close>

theorem extract_via_structure_reads_other_header:
  "extract_via_structure
     (''Current session'' @ [LF] @ ''Current week (all models) 23% used'')
     ''Current session'' = Some 23
   \<and> extract_via_structure
     (''Current session'' @ [LF] @ ''150% 42%'' @ [LF] @ ''30%'')
     ''Current session'' = Some 30"
  by code_simp

text \<open>
  An attempt is discarded when the capture raised \<^verbatim>\<open>CaptureError\<close> or its output fails
  the structural predicate.
\<close>

lemma capture_attempts_discard:
  "(case run attempt of
      Inl e \<Rightarrow> kind e = CaptureError
    | Inr output \<Rightarrow> validate_capture output = Inr False)
   \<Longrightarrow> capture_attempts run (attempt # rest) n = capture_attempts run rest n"
  by (auto split: sum.splits)

lemma capture_attempts_returns:
  "capture_attempts run attempts n = Inr output
   \<Longrightarrow> validate_capture output = Inr True \<and> (\<exists>i \<in> set attempts. run i = Inr output)"
proof (induction attempts)
  case Nil
  then show ?case by simp
next
  case (Cons a attempts)
  then show ?case
    by (auto split: sum.splits option.splits if_splits)
qed

lemma capture_attempts_exhausted:
  "\<forall>i \<in> set attempts.
      (case run i of
         Inl e \<Rightarrow> kind e = CaptureError
       | Inr output \<Rightarrow> validate_capture output = Inr False)
   \<Longrightarrow> capture_attempts run attempts n =
        Inl (Exn CaptureError
               (''Failed to capture output after '' @ str_int n @ '' attempts''))"
proof (induction attempts)
  case Nil
  then show ?case by simp
next
  case (Cons a attempts)
  then have "capture_attempts run (a # attempts) n = capture_attempts run attempts n"
    by (intro capture_attempts_discard) simp
  with Cons show ?case by simp
qed

text \<open>
  Claim C8.  Whatever \<^verbatim>\<open>capture_usage_output\<close> returns is the output of one of its
  attempts and satisfies the structural predicate of \<^verbatim>\<open>validate_capture\<close>; an attempt
  that is discarded is followed by the next one; and when each of the three attempts of
  the default retry count is discarded, the capture fails with \<^verbatim>\<open>CaptureError\<close>.
\<close>

theorem capture_usage_output_validated:
  "(capture_usage_output max_retries found_cmd run = Inr output
      \<longrightarrow> validate_capture output = Inr True
          \<and> (\<exists>cmd. found_cmd = Inr cmd \<and> (\<exists>i < nat max_retries. run cmd i = Inr output)))
   \<and> ((case run cmd attempt of
          Inl e \<Rightarrow> kind e = CaptureError
        | Inr out \<Rightarrow> validate_capture out = Inr False)
      \<longrightarrow> capture_attempts (run cmd) (attempt # rest) max_retries
           = capture_attempts (run cmd) rest max_retries)
   \<and> (found_cmd = Inr cmd
       \<and> (\<forall>i < 3. case run cmd i of
                      Inl e \<Rightarrow> kind e = CaptureError
                    | Inr out \<Rightarrow> validate_capture out = Inr False)
      \<longrightarrow> capture_usage_output 3 found_cmd run
           = Inl (Exn CaptureError ''Failed to capture output after 3 attempts''))"
proof (intro conjI impI)
  assume r: "capture_usage_output max_retries found_cmd run = Inr output"
  then obtain c where c: "found_cmd = Inr c"
    by (cases found_cmd) (simp_all add: capture_usage_output_def)
  with r have "capture_attempts (run c) [0..<nat max_retries] max_retries = Inr output"
    by (simp add: capture_usage_output_def)
  from capture_attempts_returns [OF this]
  show "validate_capture output = Inr True"
    and "\<exists>cmd. found_cmd = Inr cmd \<and> (\<exists>i < nat max_retries. run cmd i = Inr output)"
    using c by auto
next
  assume "case run cmd attempt of
          Inl e \<Rightarrow> kind e = CaptureError
        | Inr out \<Rightarrow> validate_capture out = Inr False"
  then show "capture_attempts (run cmd) (attempt # rest) max_retries
           = capture_attempts (run cmd) rest max_retries"
    by (rule capture_attempts_discard)
next
  assume h: "found_cmd = Inr cmd
       \<and> (\<forall>i < 3. case run cmd i of
                      Inl e \<Rightarrow> kind e = CaptureError
                    | Inr out \<Rightarrow> validate_capture out = Inr False)"
  then have "\<forall>i \<in> set [0..<nat 3].
      (case run cmd i of
         Inl e \<Rightarrow> kind e = CaptureError
       | Inr out \<Rightarrow> validate_capture out = Inr False)"
    by simp
  moreover have "str_int 3 = ''3''"
    by code_simp
  ultimately have "capture_attempts (run cmd) [0..<nat 3] 3
          = Inl (Exn CaptureError ''Failed to capture output after 3 attempts'')"
    using capture_attempts_exhausted [of "[0..<nat 3]" "run cmd" 3] by simp
  with h show "capture_usage_output 3 found_cmd run
           = Inl (Exn CaptureError ''Failed to capture output after 3 attempts'')"
    by (simp add: capture_usage_output_def)
qed

text \<open>
  A run whose first attempt times out, whose second captures a screen that is still
  loading and whose third captures the usage screen; and a run that never gets past the
  loading screen.
\<close>

theorem capture_usage_output_validated_witness:
  "capture_usage_output 3 (Inr ''claude'')
     (\<lambda>cmd i. if i = 0 then Inl (Exn CaptureError ''Capture timed out after 20s'')
               else if i = 1 then Inr ''Loading''
               else Inr ''Current session 42% used Current week 7% used'')
     = Inr ''Current session 42% used Current week 7% used''
   \<and> validate_capture ''Current session 42% used Current week 7% used'' = Inr True
   \<and> validate_capture ''Loading'' = Inr False
   \<and> capture_usage_output 3 (Inr ''claude'') (\<lambda>cmd i. Inr ''Loading'')
     = Inl (Exn CaptureError ''Failed to capture output after 3 attempts'')"
proof -
  let ?run = "\<lambda>(cmd :: string) (i :: nat).
               if i = 0 then Inl (Exn CaptureError ''Capture timed out after 20s'')
               else if i = 1 then Inr ''Loading''
               else Inr ''Current session 42% used Current week 7% used''"
  let ?good = "''Current session 42% used Current week 7% used''"
  have a: "capture_usage_output 3 (Inr ''claude'') ?run = Inr ?good"
    by code_simp
  have b: "validate_capture ''Loading'' = Inr False"
    by code_simp
  note t1 = capture_usage_output_validated [of 3 "Inr ''claude''" ?run ?good]
  have c: "validate_capture ?good = Inr True"
    by (rule conjunct1 [OF mp [OF conjunct1 [OF t1] a]])
  note t2 = capture_usage_output_validated
      [of 3 "Inr ''claude''" "\<lambda>cmd i. Inr ''Loading''" _ "''claude''"]
  have p: "(Inr ''claude'' :: exn + string) = Inr ''claude''
       \<and> (\<forall>i < 3. case (Inr ''Loading'' :: exn + string) of
                      Inl e \<Rightarrow> kind e = CaptureError
                    | Inr out \<Rightarrow> validate_capture out = Inr False)"
    by (simp only: sum.case b simp_thms)
  have d: "capture_usage_output 3 (Inr ''claude'') (\<lambda>cmd i. Inr ''Loading'')
            = Inl (Exn CaptureError ''Failed to capture output after 3 attempts'')"
    by (rule mp [OF conjunct2 [OF conjunct2 [OF t2]] p])
  show ?thesis
    by (intro conjI a b c d)
qed

lemma toordinal_combine:
  "0 \<le> t \<Longrightarrow> t < 86400000000 \<Longrightarrow> toordinal (combine d t) = d"
  by (simp add: toordinal_def combine_def days_def)

lemma time_of_combine:
  "0 \<le> t \<Longrightarrow> t < 86400000000 \<Longrightarrow> time_of (combine d t) = t"
  by (simp add: time_of_def combine_def days_def)

lemma recombine_same_day:
  "toordinal now = toordinal dt \<Longrightarrow>
   (if year dt = 1900 then combine (toordinal now) (time_of dt) else dt) = dt"
  by (cases dt) (simp add: combine_def toordinal_def time_of_def days_def)

lemma clean_659: "clean_time_string ''6:59pm'' = ''6:59PM''"
  by code_simp

lemma strptime_659: "strptime ''6:59PM'' ''%I:%M%p'' = Inr (mk_datetime 1900 1 1 18 59)"
  by code_simp

lemma parse_with_formats_659:
  "parse_with_formats ''6:59PM'' now = Some (combine (toordinal now) 68340000000)"
proof -
  have a: "\<not> sublist ''at'' (lower ''6:59PM'')"
    by code_simp
  have b: "time_of (mk_datetime 1900 1 1 18 59) = 68340000000"
    by code_simp
  show ?thesis
    by (simp add: parse_with_formats_def a TIME_FORMATS_def strptime_659 b)
qed

lemma adjust_659:
  "adjust_to_future (combine d 68340000000) (combine d 72000000000) 5 = None"
  "adjust_to_future (combine d 68340000000) (combine d 72000000000) 24
     = Some (combine (d + 1) 68340000000)"
proof -
  have same: "(if year (combine d 68340000000) = 1900
               then combine (toordinal (combine d 72000000000))
                      (time_of (combine d 68340000000))
               else combine d 68340000000) = combine d 68340000000"
    by (rule recombine_same_day) (simp add: toordinal_combine)
  show "adjust_to_future (combine d 68340000000) (combine d 72000000000) 5 = None"
    unfolding adjust_to_future_def Let_def same
    by (simp add: dt_less_def dt_sub_def dt_add_def hours_away_def hours_of_def
        total_seconds_def dt_diff_def combine_def days_def minutes_def)
  show "adjust_to_future (combine d 68340000000) (combine d 72000000000) 24
     = Some (combine (d + 1) 68340000000)"
    unfolding adjust_to_future_def Let_def same
    by (simp add: dt_less_def dt_sub_def dt_add_def hours_away_def hours_of_def
        total_seconds_def dt_diff_def combine_def days_def minutes_def)
qed


lemma stale_session_phrase_aux:
  assumes "\<forall>parse. dateutil = Some parse \<longrightarrow>
             parse ''6:59PM'' (combine d 0) = Inr (combine d 68340000000)
             \<or> (\<exists>e. parse ''6:59PM'' (combine d 0) = Inl e \<and> kind e = ValueError)"
  shows "parse_reset_time dateutil (Some ''6:59pm'') 5 (combine d 72000000000) = Inr None
         \<and> parse_reset_time dateutil (Some ''6:59pm'') 24 (combine d 72000000000)
           = Inr (Some (combine (d + 1) 68340000000))"
proof -
  have o: "toordinal (combine d 72000000000) = d"
    by (simp add: toordinal_combine)
  have s2: "parse_with_formats ''6:59PM'' (combine d 72000000000)
              = Some (combine d 68340000000)"
    by (simp add: parse_with_formats_659 o)
  show ?thesis
  proof (cases dateutil)
    case None
    then show ?thesis
      by (simp add: parse_reset_time_def clean_659 s2 adjust_659)
  next
    case (Some parse)
    with assms consider
        "parse ''6:59PM'' (combine d 0) = Inr (combine d 68340000000)"
      | e where "parse ''6:59PM'' (combine d 0) = Inl e" "kind e = ValueError"
      by auto
    then show ?thesis
    proof cases
      case 1
      with Some show ?thesis
        by (simp add: parse_reset_time_def clean_659 o adjust_659)
    next
      case 2
      with Some show ?thesis
        by (simp add: parse_reset_time_def clean_659 s2 o adjust_659)
    qed
  qed
qed

text \<open>
  Claim C2.  With \<open>now\<close> at 8pm of any day \<open>d\<close>, the phrase ``6:59pm'' resolves to nothing
  for a 5-hour window (the time is past, and the same time tomorrow is almost 23 hours
  away) and to 18:59 of the next day for a 24-hour window.  When \<^verbatim>\<open>dateutil\<close> is
  installed, it is taken to read the cleaned phrase \<^verbatim>\<open>6:59PM\<close> as 18:59 on the default
  date, as it does, or to reject it with a \<^verbatim>\<open>ValueError\<close>.
\<close>

theorem stale_session_phrase:
  assumes "\<forall>parse. dateutil = Some parse \<longrightarrow>
             parse ''6:59PM'' (combine d 0) = Inr (combine d (minutes (18 * 60 + 59)))
             \<or> (\<exists>e. parse ''6:59PM'' (combine d 0) = Inl e \<and> kind e = ValueError)"
  shows "parse_reset_time dateutil (Some ''6:59pm'') 5 (combine d (minutes (20 * 60)))
           = Inr None
         \<and> parse_reset_time dateutil (Some ''6:59pm'') 24 (combine d (minutes (20 * 60)))
           = Inr (Some (combine (d + 1) (minutes (18 * 60 + 59))))"
proof -
  have m: "minutes (20 * 60) = 72000000000" "minutes (18 * 60 + 59) = 68340000000"
    by (simp_all add: minutes_def)
  show ?thesis
    unfolding m by (rule stale_session_phrase_aux [OF assms [unfolded m]])
qed

theorem stale_session_phrase_witness:
  "parse_reset_time None (Some ''6:59pm'') 5 (mk_datetime 2026 1 28 20 0) = Inr None
   \<and> parse_reset_time None (Some ''6:59pm'') 24 (mk_datetime 2026 1 28 20 0)
       = Inr (Some (mk_datetime 2026 1 29 18 59))"
proof -
  have a: "mk_datetime 2026 1 28 20 0 = combine 739644 (minutes (20 * 60))"
    by code_simp
  have b: "mk_datetime 2026 1 29 18 59 = combine (739644 + 1) (minutes (18 * 60 + 59))"
    by code_simp
  have c: "\<forall>parse. (None :: dateutil) = Some parse \<longrightarrow>
             parse ''6:59PM'' (combine 739644 0) = Inr (combine 739644 (minutes (18 * 60 + 59)))
             \<or> (\<exists>e. parse ''6:59PM'' (combine 739644 0) = Inl e \<and> kind e = ValueError)"
    by simp
  show ?thesis
    unfolding a b by (rule stale_session_phrase [OF c])
qed

text \<open>
  Claim C1 says that the resolver never returns an instant more than
  \<open>window_hours + 1\<close> hours after \<open>now\<close> nor one earlier than \<open>now\<close> minus 15 minutes.
  \<^verbatim>\<open>adjust_to_future\<close> returns a time that is not in the past as it is, without
  comparing it with the window: at 1am, ``11:59pm'' resolves for the 5-hour window to
  23:59 of the same day, almost 23 hours away.  And in the branch for windows of at most
  24 hours the candidate one day later is not required to lie after \<open>now\<close>: on January
  28, ``Jan 1 at 6pm'' resolves to January 2, weeks in the past.
\<close>

theorem adjust_to_future_outside_window:
  "adjust_to_future (mk_datetime 2026 1 28 23 59) (mk_datetime 2026 1 28 1 0) 5
     = Some (mk_datetime 2026 1 28 23 59)
   \<and> parse_reset_time None (Some ''11:59pm'') 5 (mk_datetime 2026 1 28 1 0)
     = Inr (Some (mk_datetime 2026 1 28 23 59))
   \<and> hours_away (mk_datetime 2026 1 28 23 59) (mk_datetime 2026 1 28 1 0) > of_int (5 + 1)
   \<and> adjust_to_future (mk_datetime 2026 1 1 18 0) (mk_datetime 2026 1 28 1 0) 5
     = Some (mk_datetime 2026 1 2 18 0)
   \<and> parse_reset_time None (Some ''Jan 1 at 6pm'') 5 (mk_datetime 2026 1 28 1 0)
     = Inr (Some (mk_datetime 2026 1 2 18 0))
   \<and> dt_less (mk_datetime 2026 1 2 18 0) (dt_sub (mk_datetime 2026 1 28 1 0) (minutes 15))"
  by code_simp




























end
